theory Spec2Isabelle
  imports Main "HOL-Library.Word"
begin

section \<open>The DuckDB dialect compiler of ibis\<close>

text \<open>
  The source is \<^verbatim>\<open>ibis/backends/duckdb/compiler.py\<close>: the class
  \<^verbatim>\<open>DuckDBCompiler\<close>, whose rules turn one node of the operation graph, with its
  children already translated, into a sqlglot expression or raise. A rule is modelled
  as a function into \<open>expr\<close>, or into \<open>error + expr\<close> when it can raise. The names
  are the ones of the source, without the leading underscore of \<^verbatim>\<open>_aggregate\<close>,
  \<^verbatim>\<open>_neg_idx_to_pos\<close>, \<^verbatim>\<open>_INTERVAL_SUFFIXES\<close> and \<^verbatim>\<open>_SIMPLE_OPS\<close>; the two functions
  that the registration loop calls \<^verbatim>\<open>_fmt\<close> are \<open>fmt_reduction\<close> and \<open>fmt_scalar\<close>.
\<close>

subsection \<open>Data types, units and errors\<close>

text \<open>
  A temporal unit (\<^verbatim>\<open>IntervalUnit\<close>, \<^verbatim>\<open>TimestampUnit\<close>) is read by the rules only
  through the three attributes \<^verbatim>\<open>short\<close>, \<^verbatim>\<open>singular\<close> and \<^verbatim>\<open>plural\<close>.
\<close>

record temporal_unit =
  short :: string
  singular :: string
  plural :: string

text \<open>
  The ibis data types the rules test for (\<^verbatim>\<open>is_interval\<close>, \<^verbatim>\<open>is_boolean\<close>, ...),
  each with its \<^verbatim>\<open>nullable\<close> flag.
\<close>

datatype dtkind =
    Boolean
  | SignedInteger nat
  | UnsignedInteger nat
  | Floating nat
  | Decimal
  | String
  | Binary
  | UUID
  | Time
  | Timestamp "string option"
  | Interval temporal_unit
  | OtherType string

datatype dtype = DataType (kind: dtkind) (nullable: bool)

definition int32 :: dtype where
  "int32 = DataType (SignedInteger 32) True"

definition Int32 :: "bool \<Rightarrow> dtype" where
  "Int32 n = DataType (SignedInteger 32) n"

definition float32 :: dtype where
  "float32 = DataType (Floating 32) True"

fun is_boolean :: "dtype \<Rightarrow> bool" where
  "is_boolean (DataType Boolean _) = True"
| "is_boolean _ = False"

fun is_integer :: "dtype \<Rightarrow> bool" where
  "is_integer (DataType (SignedInteger _) _) = True"
| "is_integer (DataType (UnsignedInteger _) _) = True"
| "is_integer _ = False"

fun is_decimal :: "dtype \<Rightarrow> bool" where
  "is_decimal (DataType Decimal _) = True"
| "is_decimal _ = False"

fun is_numeric :: "dtype \<Rightarrow> bool" where
  "is_numeric (DataType (SignedInteger _) _) = True"
| "is_numeric (DataType (UnsignedInteger _) _) = True"
| "is_numeric (DataType (Floating _) _) = True"
| "is_numeric (DataType Decimal _) = True"
| "is_numeric _ = False"

text \<open>
  The integers an integer type holds, its \<^verbatim>\<open>bounds\<close>: from \<open>-2^(b-1)\<close> to \<open>2^(b-1) - 1\<close>
  for a signed type of \<open>b\<close> bits and from 0 to \<open>2^b - 1\<close> for an unsigned one. The
  engine's integer type of the same width holds the same integers.
\<close>

fun in_bounds :: "dtype \<Rightarrow> int \<Rightarrow> bool" where
  "in_bounds (DataType (SignedInteger b) _) n = (- (2 ^ (b - 1)) \<le> n \<and> n < 2 ^ (b - 1))"
| "in_bounds (DataType (UnsignedInteger b) _) n = (0 \<le> n \<and> n < 2 ^ b)"
| "in_bounds _ n = False"

text \<open>
  What a rule raises. The messages of the source are
  \<^item> \<open>NanosecondInterval\<close>: "... doesn't support nanosecond interval resolutions",
  \<^item> \<open>OnlyPopCorrelation\<close>: "... only implements `pop` correlation coefficient",
  \<^item> \<open>UnitNotSupported u\<close>: "'u' unit is not supported!",
  \<^item> \<open>NotImplementedError how\<close>: "No available hashing function for how",
  \<^item> \<open>KeyError k\<close>: a dictionary subscript with a key that is not there,
  \<^item> \<open>TypeError k\<close>: a call without its required keyword-only argument \<open>k\<close>,
  \<^item> \<open>OverflowError\<close>: the conversion to a float of an integer that is too large for one,
  \<^item> \<open>IllTypedLiteral\<close>: a literal whose Python value does not fit its data type (a
    time without \<^verbatim>\<open>hour\<close>, a number that is a string). The fields of a node are
    validated before the compiler sees them, so no rule is reached with one; Python
    would fail there with \<^verbatim>\<open>TypeError\<close>, \<^verbatim>\<open>AttributeError\<close> or \<^verbatim>\<open>ValueError\<close>.
\<close>

datatype unsupported = NanosecondInterval | OnlyPopCorrelation | UnitNotSupported string

datatype error =
    UnsupportedOperationError unsupported
  | NotImplementedError string
  | KeyError string
  | TypeError string
  | OverflowError
  | IllTypedLiteral

subsection \<open>Literal values\<close>

text \<open>
  The Python value of a literal node. Binary floating point is not modelled: a number
  (an \<^verbatim>\<open>int\<close>, a \<^verbatim>\<open>float\<close> or a \<^verbatim>\<open>Decimal\<close>) is kept as its text together with what its
  conversion to a float gives, which is all that \<^verbatim>\<open>math.isfinite\<close> reads: a finite
  float, one of the three floats that are not finite (also for a decimal number beyond
  the range of a float, which converts to an infinity), or \<^verbatim>\<open>OverflowError\<close> for an
  integer beyond that range. A time is hour, minute, second, microsecond; a timestamp is
  year, month, day, hour, minute, second, microsecond.
\<close>

datatype pyfloat = Finite | PosInf | NegInf | NaN | TooLarge

datatype pyvalue =
    PyNumberV string pyfloat
  | PyTextV string
  | PyBytesV "8 word list"
  | PyTimeV nat nat nat nat
  | PyDatetimeV nat nat nat nat nat nat nat

fun isfinite :: "pyvalue \<Rightarrow> error + bool" where
  "isfinite (PyNumberV _ Finite) = Inr True"
| "isfinite (PyNumberV _ TooLarge) = Inl OverflowError"
| "isfinite (PyNumberV _ _) = Inr False"
| "isfinite _ = Inl IllTypedLiteral"

definition hex_digit :: "nat \<Rightarrow> char" where
  "hex_digit d = ''0123456789abcdef'' ! (d mod 16)"

text \<open>The format \<^verbatim>\<open>"\\x{:02x}"\<close> of one byte: a backslash, \<open>x\<close>, two hexadecimal digits.\<close>

definition hex_escape :: "8 word \<Rightarrow> string" where
  "hex_escape b = [CHR 0x5C, CHR ''x'', hex_digit (unat b div 16), hex_digit (unat b mod 16)]"

definition upper_char :: "char \<Rightarrow> char" where
  "upper_char c =
     (let n = (of_char c :: nat) in if 97 \<le> n \<and> n \<le> 122 then char_of (n - 32) else c)"

definition upper :: "string \<Rightarrow> string" where
  "upper s = map upper_char s"

subsection \<open>Target expressions\<close>

text \<open>
  The sqlglot nodes the rules build. \<open>Func name args\<close> is the function call that
  \<^verbatim>\<open>self.f.name(*args)\<close> produces; \<open>Column\<close> stands for a child that was translated
  before the rule runs. Three nodes hold what Python computes from a literal value before
  sqlglot sees it: \<open>PyStr v\<close> is the string literal of \<^verbatim>\<open>str(v)\<close>, \<open>PyNum v\<close> the
  number literal of \<open>v\<close>, and \<open>PySeconds s us\<close> the float \<^verbatim>\<open>s + us / 1e6\<close>.
  The operators of Python on expressions build the nodes \<open>Add\<close>, \<open>Mul\<close>, \<open>Neg\<close>, \<open>LT\<close>,
  \<open>GTE\<close>, \<open>NEQ\<close> and \<open>Is\<close>; the parentheses that sqlglot puts around an operand are
  left out, they change no value.
\<close>

datatype expr =
    Null
  | BoolLit bool
  | IntLit int
  | StrLit string
  | Column string
  | Func string "expr list"
  | Array "expr list"
  | If expr expr expr
  | Is expr expr
  | Add expr expr
  | Mul expr expr
  | Neg expr
  | LT expr expr
  | GTE expr expr
  | NEQ expr expr
  | Cast expr dtype
  | Filter expr expr
  | Where expr
  | UnixToTime expr
  | IntervalLit expr string
  | PyStr pyvalue
  | PyNum pyvalue
  | PySeconds nat nat

text \<open>
  A Python value that reaches sqlglot as an operand: an integer of the compiler itself
  or an expression. \<^verbatim>\<open>sge.convert\<close> turns it into an expression; \<open>+\<close> between two
  Python integers is computed by Python, while \<open>+\<close> with an expression builds a node.
\<close>

datatype pyarg = PyInt int | PyExpr expr

fun convert :: "pyarg \<Rightarrow> expr" where
  "convert (PyInt n) = IntLit n"
| "convert (PyExpr e) = e"

fun py_add :: "pyarg \<Rightarrow> int \<Rightarrow> pyarg" where
  "py_add (PyInt n) k = PyInt (n + k)"
| "py_add (PyExpr e) k = PyExpr (Add e (IntLit k))"

text \<open>
  An optional argument of a rule is \<^verbatim>\<open>None\<close> or an expression; as the argument of a
  function call \<^verbatim>\<open>None\<close> is converted to \<open>NULL\<close>.
\<close>

fun convert_opt :: "expr option \<Rightarrow> expr" where
  "convert_opt None = Null"
| "convert_opt (Some e) = e"

subsection \<open>The expression builder facade\<close>

text \<open>
  Modelled from the spec: the facade of the base compiler (\<^verbatim>\<open>self.f\<close>, \<^verbatim>\<open>self.agg\<close>,
  \<^verbatim>\<open>self.cast\<close>, \<^verbatim>\<open>self.if_\<close>), which is not in this file: "a thin convenience layer
  exposing function-call construction, cast construction, and aggregate-with-filter
  construction". \<^verbatim>\<open>self.f.name(*args)\<close> is \<open>Func name args\<close>, \<^verbatim>\<open>self.cast(e, t)\<close> is
  \<open>Cast e t\<close>, \<^verbatim>\<open>self.if_(c, t, e)\<close> is \<open>If c t e\<close>, and \<^verbatim>\<open>self.agg.name(*args, where=w)\<close>
  calls \<^verbatim>\<open>self._aggregate(name, *args, where=w)\<close>, the one method of the facade that
  this file defines.
\<close>

definition aggregate :: "string \<Rightarrow> expr list \<Rightarrow> expr option \<Rightarrow> expr" where
  "aggregate funcname args wher =
     (let e = Func funcname args
      in case wher of Some w \<Rightarrow> Filter e (Where w) | None \<Rightarrow> e)"

subsection \<open>Array rules\<close>

definition visit_ArrayDistinct :: "expr \<Rightarrow> expr" where
  "visit_ArrayDistinct arg =
     If (Is arg Null) Null
        (Add (Func ''list_distinct'' [arg])
             (If (LT (Func ''list_count'' [arg]) (Func ''len'' [arg]))
                 (Array [Null])
                 (Array [])))"

definition visit_ArrayUnion :: "expr \<Rightarrow> expr \<Rightarrow> expr" where
  "visit_ArrayUnion left right =
     (let arg = Func ''list_concat'' [left, right]
      in If (Is arg Null) Null
            (Add (Func ''list_distinct'' [arg])
                 (If (LT (Func ''list_count'' [arg]) (Func ''len'' [arg]))
                     (Array [Null])
                     (Array []))))"

text \<open>\<open>index_dtype\<close> is \<^verbatim>\<open>op.index.dtype\<close>.\<close>

definition visit_ArrayIndex :: "dtype \<Rightarrow> expr \<Rightarrow> expr \<Rightarrow> expr" where
  "visit_ArrayIndex index_dtype arg index =
     Func ''list_extract'' [arg, Add index (Cast (GTE index (IntLit 0)) index_dtype)]"

definition neg_idx_to_pos :: "expr \<Rightarrow> expr \<Rightarrow> expr" where
  "neg_idx_to_pos array idx =
     (let arg_length = Func ''array_size'' [array]
      in If (GTE idx (IntLit 0)) idx
            (Add arg_length (Func ''greatest'' [idx, Neg arg_length])))"

definition visit_ArraySlice :: "expr \<Rightarrow> expr option \<Rightarrow> expr option \<Rightarrow> expr" where
  "visit_ArraySlice arg start stop =
     (let arg_length = Func ''len'' [arg];
          start' = (case start of
                      None \<Rightarrow> PyInt 0
                    | Some s \<Rightarrow> PyExpr (Func ''least'' [arg_length, neg_idx_to_pos arg s]));
          stop' = (case stop of
                     None \<Rightarrow> arg_length
                   | Some s \<Rightarrow> neg_idx_to_pos arg s)
      in Func ''list_slice'' [arg, convert (py_add start' 1), stop'])"

subsection \<open>Map rules\<close>

definition visit_MapGet :: "expr \<Rightarrow> expr \<Rightarrow> expr \<Rightarrow> expr" where
  "visit_MapGet arg key dflt =
     Func ''ifnull'' [Func ''list_extract'' [Func ''element_at'' [arg, key], IntLit 1], dflt]"

definition visit_MapContains :: "expr \<Rightarrow> expr \<Rightarrow> expr" where
  "visit_MapContains arg key =
     NEQ (Func ''len'' [Func ''element_at'' [arg, key]]) (IntLit 0)"

subsection \<open>Temporal rules\<close>

definition visit_IntervalFromInteger :: "expr \<Rightarrow> temporal_unit \<Rightarrow> error + expr" where
  "visit_IntervalFromInteger arg unit =
     (if short unit = ''ns'' then Inl (UnsupportedOperationError NanosecondInterval)
      else if singular unit = ''week'' then Inr (Func ''to_days'' [Mul arg (IntLit 7)])
      else Inr (Func (''to_'' @ plural unit) [arg]))"

definition visit_TimestampFromUNIX :: "expr \<Rightarrow> temporal_unit \<Rightarrow> error + expr" where
  "visit_TimestampFromUNIX arg unit =
     (let u = short unit
      in if u = ''ms'' then Inr (Func ''epoch_ms'' [arg])
         else if u = ''s'' then Inr (UnixToTime arg)
         else Inl (UnsupportedOperationError (UnitNotSupported u)))"

definition INTERVAL_SUFFIXES :: "(string \<times> string) list" where
  "INTERVAL_SUFFIXES =
     [(''ms'', ''milliseconds''),
      (''us'', ''microseconds''),
      (''s'', ''seconds''),
      (''m'', ''minutes''),
      (''h'', ''hours''),
      (''D'', ''days''),
      (''M'', ''months''),
      (''Y'', ''years'')]"

text \<open>
  \<open>arg_dtype\<close> is \<^verbatim>\<open>op.arg.dtype\<close>. The subscript \<^verbatim>\<open>_INTERVAL_SUFFIXES[to.unit.short]\<close>
  raises \<^verbatim>\<open>KeyError\<close> on a key the dictionary does not hold.
\<close>

definition visit_Cast :: "dtype \<Rightarrow> expr \<Rightarrow> dtype \<Rightarrow> error + expr" where
  "visit_Cast arg_dtype arg to =
     (case kind to of
        Interval unit \<Rightarrow>
          (case map_of INTERVAL_SUFFIXES (short unit) of
             None \<Rightarrow> Inl (KeyError (short unit))
           | Some suffix \<Rightarrow> Inr (Func (''to_'' @ suffix) [Cast arg int32]))
      | Timestamp tz \<Rightarrow>
          (if is_integer arg_dtype then Inr (Func ''to_timestamp'' [arg])
           else Inr (Cast arg to))
      | _ \<Rightarrow> Inr (Cast arg to))"

text \<open>
  The result \<open>Inr None\<close> is the \<^verbatim>\<open>return None\<close> of the last branch. The resolution of
  an interval type is the singular name of its unit.
\<close>

definition visit_NonNullLiteral :: "pyvalue \<Rightarrow> dtype \<Rightarrow> error + expr option" where
  "visit_NonNullLiteral v dtype =
     (case kind dtype of
        Interval unit \<Rightarrow>
          (if short unit = ''ns'' then Inl (UnsupportedOperationError NanosecondInterval)
           else Inr (Some (IntervalLit (PyStr v) (upper (singular unit)))))
      | UUID \<Rightarrow> Inr (Some (Cast (PyStr v) dtype))
      | Binary \<Rightarrow>
          (case v of
             PyBytesV bs \<Rightarrow> Inr (Some (Cast (StrLit (concat (map hex_escape bs))) dtype))
           | _ \<Rightarrow> Inl IllTypedLiteral)
      | Time \<Rightarrow>
          (case v of
             PyTimeV h m s us \<Rightarrow>
               Inr (Some (Func ''make_time''
                            [IntLit (int h), IntLit (int m), PySeconds s us]))
           | _ \<Rightarrow> Inl IllTypedLiteral)
      | Timestamp tz \<Rightarrow>
          (case v of
             PyDatetimeV y mo d h m s us \<Rightarrow>
               (let args = [IntLit (int y), IntLit (int mo), IntLit (int d),
                            IntLit (int h), IntLit (int m), PySeconds s us]
                in case tz of
                     None \<Rightarrow> Inr (Some (Func ''make_timestamp'' args))
                   | Some z \<Rightarrow> Inr (Some (Func ''make_timestamptz'' (args @ [StrLit z]))))
           | _ \<Rightarrow> Inl IllTypedLiteral)
      | _ \<Rightarrow>
          (if is_numeric dtype then
             (case isfinite v of
                Inl e \<Rightarrow> Inl e
              | Inr fin \<Rightarrow>
                  if \<not> fin
                  then Inr (Some (Cast (PyStr v) (if is_decimal dtype then float32 else dtype)))
                  else Inr (Some (Cast (PyNum v) dtype)))
           else Inr None))"

subsection \<open>Statistics and hashing\<close>

text \<open>\<open>left_type\<close> and \<open>right_type\<close> are \<^verbatim>\<open>op.left.dtype\<close> and \<^verbatim>\<open>op.right.dtype\<close>.\<close>

definition visit_Correlation ::
  "dtype \<Rightarrow> dtype \<Rightarrow> expr \<Rightarrow> expr \<Rightarrow> string \<Rightarrow> expr option \<Rightarrow> error + expr" where
  "visit_Correlation left_type right_type left right how wher =
     (if how = ''sample'' then Inl (UnsupportedOperationError OnlyPopCorrelation)
      else
        (let left' = (if is_boolean left_type
                      then Cast left (Int32 (nullable left_type)) else left);
             right' = (if is_boolean right_type
                       then Cast right (Int32 (nullable right_type)) else right)
         in Inr (aggregate ''corr'' [left', right'] wher)))"

definition visit_HexDigest :: "expr \<Rightarrow> string \<Rightarrow> error + expr" where
  "visit_HexDigest arg how =
     (if how \<in> set [''md5'', ''sha256''] then Inr (Func how [arg])
      else Inl (NotImplementedError how))"

subsection \<open>The uniform-mapping table\<close>

text \<open>A node kind is named by its class name.\<close>

definition SIMPLE_OPS :: "(string \<times> string) list" where
  "SIMPLE_OPS =
     [(''ArrayPosition'', ''list_indexof''),
      (''BitAnd'', ''bit_and''),
      (''BitOr'', ''bit_or''),
      (''BitXor'', ''bit_xor''),
      (''EndsWith'', ''suffix''),
      (''Hash'', ''hash''),
      (''IntegerRange'', ''range''),
      (''TimestampRange'', ''range''),
      (''MapKeys'', ''map_keys''),
      (''MapLength'', ''cardinality''),
      (''MapMerge'', ''map_concat''),
      (''MapValues'', ''map_values''),
      (''Mode'', ''mode''),
      (''TimeFromHMS'', ''make_time''),
      (''TypeOf'', ''typeof''),
      (''GeoPoint'', ''st_point''),
      (''GeoAsText'', ''st_astext''),
      (''GeoArea'', ''st_area''),
      (''GeoBuffer'', ''st_buffer''),
      (''GeoCentroid'', ''st_centroid''),
      (''GeoContains'', ''st_contains''),
      (''GeoCovers'', ''st_covers''),
      (''GeoCoveredBy'', ''st_coveredby''),
      (''GeoCrosses'', ''st_crosses''),
      (''GeoDifference'', ''st_difference''),
      (''GeoDisjoint'', ''st_disjoint''),
      (''GeoDistance'', ''st_distance''),
      (''GeoDWithin'', ''st_dwithin''),
      (''GeoEndPoint'', ''st_endpoint''),
      (''GeoEnvelope'', ''st_envelope''),
      (''GeoEquals'', ''st_equals''),
      (''GeoFlipCoordinates'', ''st_flipcoordinates''),
      (''GeoGeometryType'', ''st_geometrytype''),
      (''GeoIntersection'', ''st_intersection''),
      (''GeoIntersects'', ''st_intersects''),
      (''GeoIsValid'', ''st_isvalid''),
      (''GeoLength'', ''st_length''),
      (''GeoNPoints'', ''st_npoints''),
      (''GeoOverlaps'', ''st_overlaps''),
      (''GeoStartPoint'', ''st_startpoint''),
      (''GeoTouches'', ''st_touches''),
      (''GeoUnion'', ''st_union''),
      (''GeoUnaryUnion'', ''st_union_agg''),
      (''GeoWithin'', ''st_within''),
      (''GeoX'', ''st_x''),
      (''GeoY'', ''st_y'')]"

text \<open>
  The two rules the registration loop generates. The keyword arguments of a call are a
  list of names with their values, in the order of the node's fields. The rule of a
  reduction takes the keyword \<^verbatim>\<open>where\<close> out of them, and cannot be called without it.
\<close>

definition fmt_reduction :: "string \<Rightarrow> (string \<times> expr option) list \<Rightarrow> error + expr" where
  "fmt_reduction name kwargs =
     (case map_of kwargs ''where'' of
        None \<Rightarrow> Inl (TypeError ''where'')
      | Some wher \<Rightarrow>
          (let kw = filter (\<lambda>kv. fst kv \<noteq> ''where'') kwargs
           in Inr (aggregate name (map (\<lambda>kv. convert_opt (snd kv)) kw) wher)))"

definition fmt_scalar :: "string \<Rightarrow> (string \<times> expr option) list \<Rightarrow> error + expr" where
  "fmt_scalar name kw = Inr (Func name (map (\<lambda>kv. convert_opt (snd kv)) kw))"

text \<open>
  The loop over the table: the rule registered for a node kind, if the table has it.
  Which node kinds are reductions (\<^verbatim>\<open>issubclass(_op, ops.Reduction)\<close>) is decided by the
  class hierarchy of the operations, which is not in this file: it is the parameter
  \<open>is_reduction\<close>.
\<close>

definition simple_rule ::
  "(string \<Rightarrow> bool) \<Rightarrow> string \<Rightarrow> ((string \<times> expr option) list \<Rightarrow> error + expr) option" where
  "simple_rule is_reduction opname =
     (case map_of SIMPLE_OPS opname of
        None \<Rightarrow> None
      | Some name \<Rightarrow> Some (if is_reduction opname then fmt_reduction name else fmt_scalar name))"

subsection \<open>The values of the target engine\<close>

text \<open>
  The claims about arrays and maps speak of what the compiled expression yields, which
  the engine decides, not the compiler. The engine is modelled on the values the rules
  above concern, after the spec's dialect capability facts and the engine's
  documentation of each primitive:
  \<^item> \<open>len\<close>, \<open>array_size\<close>: the number of elements of a list, nulls included;
  \<^item> \<open>list_count\<close>: the number of elements that are not null;
  \<^item> \<open>list_distinct\<close>: the list without its duplicates and without its nulls (the
    engine promises no order; the model keeps the order of \<open>remdups\<close>);
  \<^item> \<open>list_concat\<close> and \<open>+\<close> on two lists: concatenation;
  \<^item> \<open>list_extract\<close>: the element at a 1-based position, a negative position counting
    from the end, null when the position is out of range;
  \<^item> \<open>list_slice\<close>: the elements between two 1-based positions, both bounds included;
  \<^item> \<open>element_at\<close> on a map: the list holding the value of the key, the empty list when
    the key is absent ("the target's native lookup returns an empty collection (not
    null) for a missing key");
  \<^item> \<open>ifnull\<close>: the second argument when the first is null, else the first;
  \<^item> \<open>greatest\<close>, \<open>least\<close>: maximum and minimum of two integers;
  \<^item> \<open>map\<close>: the map of a list of keys and a list of values.
  Integers are unbounded here, while the engine's have a fixed width and its \<open>+\<close> raises
  when the sum leaves the type of its operands. The sums of \<open>_neg_idx_to_pos\<close> and of
  the ArraySlice rule lie between 0 and the length of the array plus one, where the two
  agree. The sum of the ArrayIndex rule is taken in the type of the index: what is
  stated about it below assumes that the index and the sum are within the bounds of
  that type. A cast of an integer beyond the bounds of the target type has no value.
  The engine promises no order for \<open>list_distinct\<close>: the order of the model is one of
  the orders the engine may return, and \<open>visit_ArrayDistinct_any_order\<close> below holds for
  each of them.
  An expression outside this fragment, or on which the engine raises, has no value
  (\<open>None\<close>).
\<close>

datatype val =
    VNull
  | VBool bool
  | VInt int
  | VStr string
  | VList "val list"
  | VMap "(val \<times> val) list"

definition list_count :: "val list \<Rightarrow> nat" where
  "list_count xs = length (filter (\<lambda>v. v \<noteq> VNull) xs)"

definition list_distinct :: "val list \<Rightarrow> val list" where
  "list_distinct xs = remdups (filter (\<lambda>v. v \<noteq> VNull) xs)"

definition list_extract :: "val list \<Rightarrow> int \<Rightarrow> val" where
  "list_extract xs i =
     (let n = int (length xs)
      in if 1 \<le> i \<and> i \<le> n then xs ! nat (i - 1)
         else if - n \<le> i \<and> i \<le> - 1 then xs ! nat (n + i)
         else VNull)"

definition list_slice :: "val list \<Rightarrow> int \<Rightarrow> int \<Rightarrow> val list" where
  "list_slice xs b e =
     (let n = int (length xs);
          b' = (if b < 0 then max (n + b + 1) 1 else max b 1);
          e' = (if e < 0 then n + e + 1 else min e n)
      in take (nat (e' - b' + 1)) (drop (nat (b' - 1)) xs))"

definition element_at :: "(val \<times> val) list \<Rightarrow> val \<Rightarrow> val list" where
  "element_at m k = (case map_of m k of None \<Rightarrow> [] | Some v \<Rightarrow> [v])"

fun fn_len :: "val list \<Rightarrow> val option" where
  "fn_len [VList xs] = Some (VInt (int (length xs)))"
| "fn_len [VNull] = Some VNull"
| "fn_len _ = None"

fun fn_list_count :: "val list \<Rightarrow> val option" where
  "fn_list_count [VList xs] = Some (VInt (int (list_count xs)))"
| "fn_list_count [VNull] = Some VNull"
| "fn_list_count _ = None"

fun fn_list_distinct :: "val list \<Rightarrow> val option" where
  "fn_list_distinct [VList xs] = Some (VList (list_distinct xs))"
| "fn_list_distinct [VNull] = Some VNull"
| "fn_list_distinct _ = None"

fun fn_list_concat :: "val list \<Rightarrow> val option" where
  "fn_list_concat [VList xs, VList ys] = Some (VList (xs @ ys))"
| "fn_list_concat [VNull, VList ys] = Some (VList ys)"
| "fn_list_concat [VList xs, VNull] = Some (VList xs)"
| "fn_list_concat [VNull, VNull] = Some VNull"
| "fn_list_concat _ = None"

fun fn_list_extract :: "val list \<Rightarrow> val option" where
  "fn_list_extract [VList xs, VInt i] = Some (list_extract xs i)"
| "fn_list_extract [VNull, _] = Some VNull"
| "fn_list_extract [VList xs, VNull] = Some VNull"
| "fn_list_extract _ = None"

fun fn_list_slice :: "val list \<Rightarrow> val option" where
  "fn_list_slice [VList xs, VInt b, VInt e] = Some (VList (list_slice xs b e))"
| "fn_list_slice [VNull, _, _] = Some VNull"
| "fn_list_slice _ = None"

fun fn_element_at :: "val list \<Rightarrow> val option" where
  "fn_element_at [VMap m, k] = Some (VList (element_at m k))"
| "fn_element_at [VNull, _] = Some VNull"
| "fn_element_at _ = None"

fun fn_ifnull :: "val list \<Rightarrow> val option" where
  "fn_ifnull [a, b] = Some (if a = VNull then b else a)"
| "fn_ifnull _ = None"

fun fn_greatest :: "val list \<Rightarrow> val option" where
  "fn_greatest [VInt a, VInt b] = Some (VInt (max a b))"
| "fn_greatest _ = None"

fun fn_least :: "val list \<Rightarrow> val option" where
  "fn_least [VInt a, VInt b] = Some (VInt (min a b))"
| "fn_least _ = None"

fun fn_map :: "val list \<Rightarrow> val option" where
  "fn_map [VList ks, VList vs] =
     (if length ks = length vs then Some (VMap (zip ks vs)) else None)"
| "fn_map _ = None"

definition apply_func :: "string \<Rightarrow> val list \<Rightarrow> val option" where
  "apply_func name args =
     (if name = ''len'' then fn_len args
      else if name = ''array_size'' then fn_len args
      else if name = ''list_count'' then fn_list_count args
      else if name = ''list_distinct'' then fn_list_distinct args
      else if name = ''list_concat'' then fn_list_concat args
      else if name = ''list_extract'' then fn_list_extract args
      else if name = ''list_slice'' then fn_list_slice args
      else if name = ''element_at'' then fn_element_at args
      else if name = ''ifnull'' then fn_ifnull args
      else if name = ''greatest'' then fn_greatest args
      else if name = ''least'' then fn_least args
      else if name = ''map'' then fn_map args
      else None)"

fun val_add :: "val \<Rightarrow> val \<Rightarrow> val option" where
  "val_add (VInt a) (VInt b) = Some (VInt (a + b))"
| "val_add (VList xs) (VList ys) = Some (VList (xs @ ys))"
| "val_add VNull _ = Some VNull"
| "val_add _ VNull = Some VNull"
| "val_add _ _ = None"

fun val_neg :: "val \<Rightarrow> val option" where
  "val_neg (VInt a) = Some (VInt (- a))"
| "val_neg VNull = Some VNull"
| "val_neg _ = None"

fun val_lt :: "val \<Rightarrow> val \<Rightarrow> val option" where
  "val_lt (VInt a) (VInt b) = Some (VBool (a < b))"
| "val_lt VNull _ = Some VNull"
| "val_lt _ VNull = Some VNull"
| "val_lt _ _ = None"

fun val_gte :: "val \<Rightarrow> val \<Rightarrow> val option" where
  "val_gte (VInt a) (VInt b) = Some (VBool (b \<le> a))"
| "val_gte VNull _ = Some VNull"
| "val_gte _ VNull = Some VNull"
| "val_gte _ _ = None"

fun val_neq :: "val \<Rightarrow> val \<Rightarrow> val option" where
  "val_neq (VInt a) (VInt b) = Some (VBool (a \<noteq> b))"
| "val_neq VNull _ = Some VNull"
| "val_neq _ VNull = Some VNull"
| "val_neq _ _ = None"

text \<open>
  A cast of a boolean to an integer type gives 1 for true and 0 for false; a cast of an
  integer to an integer type gives the integer when the type holds it.
\<close>

fun val_cast :: "val \<Rightarrow> dtype \<Rightarrow> val option" where
  "val_cast VNull t = Some VNull"
| "val_cast (VBool b) t = (if is_integer t then Some (VInt (if b then 1 else 0)) else None)"
| "val_cast (VInt i) t = (if in_bounds t i then Some (VInt i) else None)"
| "val_cast _ t = None"

fun eval :: "(string \<Rightarrow> val) \<Rightarrow> expr \<Rightarrow> val option" where
  "eval env Null = Some VNull"
| "eval env (BoolLit b) = Some (VBool b)"
| "eval env (IntLit i) = Some (VInt i)"
| "eval env (StrLit s) = Some (VStr s)"
| "eval env (Column c) = Some (env c)"
| "eval env (Func name args) =
     (case those (map (eval env) args) of
        None \<Rightarrow> None
      | Some vs \<Rightarrow> apply_func name vs)"
| "eval env (Array es) =
     (case those (map (eval env) es) of
        None \<Rightarrow> None
      | Some vs \<Rightarrow> Some (VList vs))"
| "eval env (If c t e) =
     (case eval env c of
        Some (VBool True) \<Rightarrow> eval env t
      | Some (VBool False) \<Rightarrow> eval env e
      | Some VNull \<Rightarrow> eval env e
      | _ \<Rightarrow> None)"
| "eval env (Is a b) =
     (case (eval env a, eval env b) of
        (Some x, Some VNull) \<Rightarrow> Some (VBool (x = VNull))
      | _ \<Rightarrow> None)"
| "eval env (Add a b) =
     (case (eval env a, eval env b) of
        (Some x, Some y) \<Rightarrow> val_add x y
      | _ \<Rightarrow> None)"
| "eval env (Neg a) =
     (case eval env a of Some x \<Rightarrow> val_neg x | None \<Rightarrow> None)"
| "eval env (LT a b) =
     (case (eval env a, eval env b) of
        (Some x, Some y) \<Rightarrow> val_lt x y
      | _ \<Rightarrow> None)"
| "eval env (GTE a b) =
     (case (eval env a, eval env b) of
        (Some x, Some y) \<Rightarrow> val_gte x y
      | _ \<Rightarrow> None)"
| "eval env (NEQ a b) =
     (case (eval env a, eval env b) of
        (Some x, Some y) \<Rightarrow> val_neq x y
      | _ \<Rightarrow> None)"
| "eval env (Cast a t) =
     (case eval env a of Some x \<Rightarrow> val_cast x t | None \<Rightarrow> None)"
| "eval env _ = None"

text \<open>The environment without columns, for closed expressions.\<close>

definition no_columns :: "string \<Rightarrow> val" where
  "no_columns = (\<lambda>c. VNull)"

subsection \<open>The rules as the specification words them\<close>

text \<open>
  The normalisation of an index \<open>i\<close> against the length \<open>L\<close>: "normalized index equals
  \<open>i\<close> if \<open>i \<ge> 0\<close>, else \<open>max(L + i, 0)\<close>".
\<close>

definition spec_normalize :: "int \<Rightarrow> int \<Rightarrow> int" where
  "spec_normalize L i = (if 0 \<le> i then i else max (L + i) 0)"

text \<open>
  Distinct as the specification words it: the deduplicated array, with one trailing
  null "based on whether original length exceeded deduplicated length".
\<close>

definition spec_distinct :: "val list \<Rightarrow> val list" where
  "spec_distinct xs =
     (let d = list_distinct xs in if length d < length xs then d @ [VNull] else d)"

text \<open>
  Map lookup as the specification words it: the default "only on true absence, not on a
  present-but-null value".
\<close>

definition spec_map_get :: "(val \<times> val) list \<Rightarrow> val \<Rightarrow> val \<Rightarrow> val" where
  "spec_map_get m k d = (case map_of m k of None \<Rightarrow> d | Some v \<Rightarrow> v)"

section \<open>Distinct elements of an array\<close>

lemma list_count_less_iff: "list_count xs < length xs \<longleftrightarrow> VNull \<in> set xs"
proof
  assume "list_count xs < length xs"
  then have "filter (\<lambda>v. v \<noteq> VNull) xs \<noteq> xs"
    by (auto simp: list_count_def)
  then show "VNull \<in> set xs"
    by (auto simp: filter_id_conv)
next
  assume "VNull \<in> set xs"
  then show "list_count xs < length xs"
    unfolding list_count_def by (intro length_filter_less[of VNull]) auto
qed

lemma null_notin_list_distinct: "VNull \<notin> set (list_distinct xs)"
  by (simp add: list_distinct_def)

lemma distinct_list_distinct: "distinct (list_distinct xs)"
  by (simp add: list_distinct_def)

lemma set_list_distinct: "set (list_distinct xs) = set xs - {VNull}"
  by (auto simp: list_distinct_def)

text \<open>
  Whatever the order of the deduplicated array: the result is a list without
  duplicates of the elements that are not null, followed by one null when the array
  holds a null and by nothing otherwise.
\<close>

lemma visit_ArrayDistinct_any_order:
  assumes "eval env arg = Some (VList xs)"
  shows "\<exists>d. distinct d \<and> set d = set xs - {VNull} \<and>
           eval env (visit_ArrayDistinct arg) =
             Some (VList (d @ (if VNull \<in> set xs then [VNull] else [])))"
proof (intro exI conjI)
  show "distinct (list_distinct xs)"
    by (rule distinct_list_distinct)
  show "set (list_distinct xs) = set xs - {VNull}"
    by (rule set_list_distinct)
  show "eval env (visit_ArrayDistinct arg) =
          Some (VList (list_distinct xs @ (if VNull \<in> set xs then [VNull] else [])))"
    using assms
    by (simp add: visit_ArrayDistinct_def apply_func_def list_count_less_iff)
qed

text \<open>The ArrayUnion rule is the same expression on the concatenation of its two arrays.\<close>

lemma visit_ArrayUnion_eval:
  assumes "eval env left = Some (VList xs)" and "eval env right = Some (VList ys)"
  shows "eval env (visit_ArrayUnion left right) =
           Some (VList (list_distinct (xs @ ys) @
                          (if VNull \<in> set (xs @ ys) then [VNull] else [])))"
proof -
  have c: "int (list_count (xs @ ys)) < int (length xs) + int (length ys) \<longleftrightarrow>
             VNull \<in> set xs \<or> VNull \<in> set ys"
    using list_count_less_iff [of "xs @ ys"] by (simp flip: of_nat_add)
  show ?thesis
    using assms by (simp add: visit_ArrayUnion_def apply_func_def Let_def c)
qed

text \<open>
  C1, as the code has it. For every array that is not null, the ArrayDistinct rule
  yields the deduplicated array (\<open>list_distinct\<close>, which holds no null) followed by
  exactly one null if and only if the array holds a null, that is, if and only if its
  count of elements that are not null is below its length. The test of the rule is
  \<open>list_count(arg) < len(arg)\<close>; the length of the deduplicated array is not part of it.
\<close>

theorem visit_ArrayDistinct_eval:
  assumes "eval env arg = Some (VList xs)"
  shows "eval env (visit_ArrayDistinct arg) =
           Some (VList (list_distinct xs @ (if VNull \<in> set xs then [VNull] else []))) \<and>
         VNull \<notin> set (list_distinct xs)"
  using assms
  by (simp add: visit_ArrayDistinct_def apply_func_def list_count_less_iff
      null_notin_list_distinct)

text \<open>The two arrays of the specification: \<open>[1,2,2,null,null]\<close> and \<open>[1,2,3]\<close>.\<close>

theorem visit_ArrayDistinct_eval_witness:
  "eval no_columns (visit_ArrayDistinct (Array [IntLit 1, IntLit 2, IntLit 2, Null, Null])) =
     Some (VList [VInt 1, VInt 2, VNull]) \<and>
   eval no_columns (visit_ArrayDistinct (Array [IntLit 1, IntLit 2, IntLit 3])) =
     Some (VList [VInt 1, VInt 2, VInt 3])"
proof -
  have a: "eval no_columns (Array [IntLit 1, IntLit 2, IntLit 2, Null, Null]) =
             Some (VList [VInt 1, VInt 2, VInt 2, VNull, VNull])"
    by simp
  have b: "eval no_columns (Array [IntLit 1, IntLit 2, IntLit 3]) =
             Some (VList [VInt 1, VInt 2, VInt 3])"
    by simp
  show ?thesis
    using visit_ArrayDistinct_eval [OF a] visit_ArrayDistinct_eval [OF b]
    by (simp add: list_distinct_def)
qed

text \<open>
  C1, as the specification words it, fails on \<open>[1,2,2]\<close>: the length 3 of the array
  exceeds the length 2 of the deduplicated array, and the rule appends no null.
\<close>

theorem visit_ArrayDistinct_spec_counterexample:
  "length (list_distinct [VInt 1, VInt 2, VInt 2]) < length [VInt 1, VInt 2, VInt 2] \<and>
   eval no_columns (visit_ArrayDistinct (Array [IntLit 1, IntLit 2, IntLit 2])) =
     Some (VList [VInt 1, VInt 2]) \<and>
   eval no_columns (visit_ArrayDistinct (Array [IntLit 1, IntLit 2, IntLit 2])) \<noteq>
     Some (VList (spec_distinct [VInt 1, VInt 2, VInt 2]))"
  by (simp add: visit_ArrayDistinct_def apply_func_def list_distinct_def list_count_def
      spec_distinct_def)

section \<open>Negative indices\<close>

text \<open>
  C3. For an array of length \<open>L\<close> and an integer index \<open>i\<close>, the expression that
  \<open>_neg_idx_to_pos\<close> builds yields \<open>i\<close> when \<open>i \<ge> 0\<close> and \<open>max(L + i, 0)\<close> when \<open>i < 0\<close>,
  which is \<open>L + max(i, -L)\<close>.
\<close>

theorem neg_idx_to_pos_normalizes:
  assumes "eval env array = Some (VList xs)" and "eval env idx = Some (VInt i)"
  shows "eval env (neg_idx_to_pos array idx) =
           Some (VInt (if 0 \<le> i then i else max (int (length xs) + i) 0)) \<and>
         max (int (length xs) + i) 0 = int (length xs) + max i (- int (length xs))"
  using assms by (simp add: neg_idx_to_pos_def apply_func_def Let_def max_def)

text \<open>The two examples of the specification: \<open>L = 2, i = -3\<close> and \<open>L = 5, i = -2\<close>.\<close>

theorem neg_idx_to_pos_normalizes_witness:
  "eval no_columns (neg_idx_to_pos (Array [IntLit 10, IntLit 20]) (IntLit (- 3))) =
     Some (VInt 0) \<and>
   eval no_columns (neg_idx_to_pos (Array [IntLit 1, IntLit 2, IntLit 3, IntLit 4, IntLit 5])
      (IntLit (- 2))) = Some (VInt 3)"
proof -
  have a: "eval no_columns (Array [IntLit 10, IntLit 20]) = Some (VList [VInt 10, VInt 20])"
    by simp
  have b: "eval no_columns (Array [IntLit 1, IntLit 2, IntLit 3, IntLit 4, IntLit 5]) =
             Some (VList [VInt 1, VInt 2, VInt 3, VInt 4, VInt 5])"
    by simp
  have i: "eval no_columns (IntLit (- 3)) = Some (VInt (- 3))"
    by simp
  have j: "eval no_columns (IntLit (- 2)) = Some (VInt (- 2))"
    by simp
  show ?thesis
    using neg_idx_to_pos_normalizes [OF a i] neg_idx_to_pos_normalizes [OF b j]
    by simp
qed

lemma eval_neg_idx_to_pos:
  assumes "eval env array = Some (VList xs)" and "eval env idx = Some (VInt i)"
  shows "eval env (neg_idx_to_pos array idx) = Some (VInt (spec_normalize (int (length xs)) i))"
  using assms by (simp add: neg_idx_to_pos_def apply_func_def Let_def max_def spec_normalize_def)

lemma spec_normalize_nonneg: "0 \<le> L \<Longrightarrow> 0 \<le> spec_normalize L i"
  by (simp add: spec_normalize_def)

section \<open>Indexing and slicing\<close>

lemma in_bounds_is_integer: "in_bounds t n \<Longrightarrow> is_integer t"
  by (cases "(t, n)" rule: in_bounds.cases) simp_all

lemma eval_ArrayIndex_position:
  assumes "eval env index = Some (VInt i)" and "in_bounds index_dtype i"
  shows "eval env (Add index (Cast (GTE index (IntLit 0)) index_dtype)) =
           Some (VInt (if 0 \<le> i then i + 1 else i))"
  using assms by (simp add: in_bounds_is_integer)

lemma eval_ArraySlice_start:
  assumes "eval env arg = Some (VList xs)" and "eval env start = Some (VInt i)"
  shows "eval env (Add (Func ''least'' [Func ''len'' [arg], neg_idx_to_pos arg start]) (IntLit 1)) =
           Some (VInt (min (int (length xs)) (spec_normalize (int (length xs)) i) + 1))"
  using assms by (simp add: apply_func_def eval_neg_idx_to_pos)

text \<open>
  C4, as the code has it. The ArraySlice rule normalises both of its bounds by
  \<open>_neg_idx_to_pos\<close>: the first position of the slice is the normalised start, capped at
  the length \<open>L\<close> by \<open>least\<close> and shifted by one, and the last position is the normalised
  stop, the inclusive upper bound, not shifted. The ArrayIndex rule does not normalise:
  for an index \<open>i\<close> that is within the bounds of its integer type together with the
  position computed from it, the position it hands to the 1-based extraction primitive
  is \<open>i + 1\<close> when \<open>i \<ge> 0\<close> and the negative \<open>i\<close> itself otherwise, which the primitive
  counts from the end. Beyond these bounds the sum of the rule leaves the type of the
  index and nothing is stated.
\<close>

theorem index_and_slice_positions:
  assumes "eval env arg = Some (VList xs)"
    and "eval env index = Some (VInt i)"
    and "eval env stop = Some (VInt j)"
    and "in_bounds index_dtype i"
    and "in_bounds index_dtype (if 0 \<le> i then i + 1 else i)"
  shows "visit_ArrayIndex index_dtype arg index =
           Func ''list_extract'' [arg, Add index (Cast (GTE index (IntLit 0)) index_dtype)] \<and>
         eval env (Add index (Cast (GTE index (IntLit 0)) index_dtype)) =
           Some (VInt (if 0 \<le> i then i + 1 else i)) \<and>
         eval env (visit_ArrayIndex index_dtype arg index) =
           Some (list_extract xs (if 0 \<le> i then i + 1 else i)) \<and>
         visit_ArraySlice arg (Some index) (Some stop) =
           Func ''list_slice''
             [arg,
              Add (Func ''least'' [Func ''len'' [arg], neg_idx_to_pos arg index]) (IntLit 1),
              neg_idx_to_pos arg stop] \<and>
         eval env (Add (Func ''least'' [Func ''len'' [arg], neg_idx_to_pos arg index])
                       (IntLit 1)) =
           Some (VInt (min (int (length xs)) (spec_normalize (int (length xs)) i) + 1)) \<and>
         eval env (neg_idx_to_pos arg stop) =
           Some (VInt (spec_normalize (int (length xs)) j)) \<and>
         eval env (visit_ArraySlice arg (Some index) (Some stop)) =
           Some (VList (list_slice xs
             (min (int (length xs)) (spec_normalize (int (length xs)) i) + 1)
             (spec_normalize (int (length xs)) j)))"
proof -
  have p: "eval env (Add index (Cast (GTE index (IntLit 0)) index_dtype)) =
             Some (VInt (if 0 \<le> i then i + 1 else i))"
    using assms(2,4) by (rule eval_ArrayIndex_position)
  have s: "eval env (Add (Func ''least'' [Func ''len'' [arg], neg_idx_to_pos arg index])
                         (IntLit 1)) =
             Some (VInt (min (int (length xs)) (spec_normalize (int (length xs)) i) + 1))"
    using assms(1,2) by (rule eval_ArraySlice_start)
  have e: "eval env (neg_idx_to_pos arg stop) = Some (VInt (spec_normalize (int (length xs)) j))"
    using assms(1,3) by (rule eval_neg_idx_to_pos)
  have xi: "visit_ArrayIndex index_dtype arg index =
              Func ''list_extract'' [arg, Add index (Cast (GTE index (IntLit 0)) index_dtype)]"
    by (simp add: visit_ArrayIndex_def)
  have xs: "visit_ArraySlice arg (Some index) (Some stop) =
              Func ''list_slice''
                [arg,
                 Add (Func ''least'' [Func ''len'' [arg], neg_idx_to_pos arg index]) (IntLit 1),
                 neg_idx_to_pos arg stop]"
    by (simp add: visit_ArraySlice_def)
  have vi: "eval env (visit_ArrayIndex index_dtype arg index) =
              Some (list_extract xs (if 0 \<le> i then i + 1 else i))"
    unfolding xi using assms(1) p by (simp add: apply_func_def)
  have vs: "eval env (visit_ArraySlice arg (Some index) (Some stop)) =
              Some (VList (list_slice xs
                (min (int (length xs)) (spec_normalize (int (length xs)) i) + 1)
                (spec_normalize (int (length xs)) j)))"
    unfolding xs using assms(1) s e by (simp add: apply_func_def)
  show ?thesis
    using xi p vi xs s e vs by (intro conjI)
qed

text \<open>
  The array \<open>[10,20,30]\<close> with the 32-bit index \<open>-1\<close>: the position of the index is \<open>-1\<close>,
  the last element; the slice from \<open>-1\<close> to 3 begins at position 3.
\<close>

theorem index_and_slice_positions_witness:
  "in_bounds int32 (- 1) \<and>
   eval no_columns (Add (IntLit (- 1)) (Cast (GTE (IntLit (- 1)) (IntLit 0)) int32)) =
     Some (VInt (- 1)) \<and>
   eval no_columns (visit_ArrayIndex int32 (Array [IntLit 10, IntLit 20, IntLit 30])
      (IntLit (- 1))) = Some (VInt 30) \<and>
   eval no_columns (visit_ArraySlice (Array [IntLit 10, IntLit 20, IntLit 30])
      (Some (IntLit (- 1))) (Some (IntLit 3))) = Some (VList [VInt 30])"
proof -
  have a: "eval no_columns (Array [IntLit 10, IntLit 20, IntLit 30]) =
             Some (VList [VInt 10, VInt 20, VInt 30])"
    by simp
  have i: "eval no_columns (IntLit (- 1)) = Some (VInt (- 1))"
    by simp
  have j: "eval no_columns (IntLit 3) = Some (VInt 3)"
    by simp
  have t: "in_bounds int32 (- 1)"
    by (simp add: int32_def)
  have u: "in_bounds int32 (if 0 \<le> (- 1 :: int) then - 1 + 1 else - 1)"
    by (simp add: int32_def)
  note th = index_and_slice_positions [OF a i j t u]
  note p = th [THEN conjunct2, THEN conjunct1]
  note vi = th [THEN conjunct2, THEN conjunct2, THEN conjunct1]
  note vs = th [THEN conjunct2, THEN conjunct2, THEN conjunct2, THEN conjunct2,
      THEN conjunct2, THEN conjunct2]
  show ?thesis
    using t p vi vs
    by (simp add: list_extract_def list_slice_def spec_normalize_def)
qed

text \<open>
  C4, as the specification words it, fails on the array \<open>[10,20]\<close> and the index \<open>-3\<close>:
  the normalised index is 0, which shifted by one is the position of 10, and the
  ArrayIndex rule yields null.
\<close>

theorem visit_ArrayIndex_spec_counterexample:
  "eval no_columns (visit_ArrayIndex int32 (Array [IntLit 10, IntLit 20]) (IntLit (- 3))) =
     Some VNull \<and>
   list_extract [VInt 10, VInt 20] (spec_normalize 2 (- 3) + 1) = VInt 10 \<and>
   eval no_columns (visit_ArrayIndex int32 (Array [IntLit 10, IntLit 20]) (IntLit (- 3))) \<noteq>
     Some (list_extract [VInt 10, VInt 20] (spec_normalize 2 (- 3) + 1))"
  by (simp add: visit_ArrayIndex_def apply_func_def list_extract_def int32_def
      spec_normalize_def)

lemma list_slice_python:
  "0 \<le> a \<Longrightarrow> 0 \<le> b \<Longrightarrow> list_slice xs (a + 1) b = take (nat b - nat a) (drop (nat a) xs)"
  apply (simp add: list_slice_def Let_def min_def max_def)
  apply (auto simp: nat_diff_distrib')
  done

text \<open>
  C5. An omitted start is 0, which shifted by one is the first position of the slicing
  primitive, and an omitted stop is the length \<open>L\<close> of the array. So with the start
  omitted the slice is the elements before the normalised stop, with the stop omitted
  it is the elements from the normalised start on, and with both omitted it is the
  whole array.
\<close>

theorem visit_ArraySlice_defaults:
  assumes "eval env arg = Some (VList xs)"
    and "eval env start = Some (VInt i)"
    and "eval env stop = Some (VInt j)"
  shows "visit_ArraySlice arg None None =
           Func ''list_slice'' [arg, IntLit (0 + 1), Func ''len'' [arg]] \<and>
         eval env (visit_ArraySlice arg None (Some stop)) =
           Some (VList (take (nat (spec_normalize (int (length xs)) j)) xs)) \<and>
         eval env (visit_ArraySlice arg (Some start) None) =
           Some (VList
             (drop (nat (min (int (length xs)) (spec_normalize (int (length xs)) i))) xs)) \<and>
         eval env (visit_ArraySlice arg None None) = Some (VList xs)"
proof -
  let ?L = "int (length xs)"
  have n: "0 \<le> spec_normalize ?L j" "0 \<le> min ?L (spec_normalize ?L i)"
    by (simp_all add: spec_normalize_nonneg)
  have 1: "list_slice xs (0 + 1) (spec_normalize ?L j) = take (nat (spec_normalize ?L j)) xs"
    using n(1) by (subst list_slice_python) simp_all
  have 2: "list_slice xs (min ?L (spec_normalize ?L i) + 1) ?L =
             drop (nat (min ?L (spec_normalize ?L i))) xs"
    using n(2) by (subst list_slice_python) simp_all
  have 3: "list_slice xs (0 + 1) ?L = xs"
    by (subst list_slice_python) simp_all
  have a: "eval env (visit_ArraySlice arg None (Some stop)) =
             Some (VList (list_slice xs (0 + 1) (spec_normalize ?L j)))"
    using assms
    by (simp add: visit_ArraySlice_def apply_func_def eval_neg_idx_to_pos Let_def)
  have b: "eval env (visit_ArraySlice arg (Some start) None) =
             Some (VList (list_slice xs (min ?L (spec_normalize ?L i) + 1) ?L))"
    using assms
    by (simp add: visit_ArraySlice_def apply_func_def eval_neg_idx_to_pos Let_def)
  have c: "eval env (visit_ArraySlice arg None None) = Some (VList (list_slice xs (0 + 1) ?L))"
    using assms
    by (simp add: visit_ArraySlice_def apply_func_def Let_def)
  have d: "visit_ArraySlice arg None None =
             Func ''list_slice'' [arg, IntLit (0 + 1), Func ''len'' [arg]]"
    by (simp add: visit_ArraySlice_def)
  show ?thesis
    using a b c d by (simp only: 1 2 3)
qed

text \<open>The example of the specification: \<open>[10,20,30,40]\<close>, start omitted, stop 2.\<close>

theorem visit_ArraySlice_defaults_witness:
  "eval no_columns (visit_ArraySlice (Array [IntLit 10, IntLit 20, IntLit 30, IntLit 40])
      None (Some (IntLit 2))) = Some (VList [VInt 10, VInt 20]) \<and>
   eval no_columns (visit_ArraySlice (Array [IntLit 10, IntLit 20, IntLit 30, IntLit 40])
      (Some (IntLit 2)) None) = Some (VList [VInt 30, VInt 40])"
proof -
  have a: "eval no_columns (Array [IntLit 10, IntLit 20, IntLit 30, IntLit 40]) =
             Some (VList [VInt 10, VInt 20, VInt 30, VInt 40])"
    by simp
  have j: "eval no_columns (IntLit 2) = Some (VInt 2)"
    by simp
  have n: "nat 2 = Suc (Suc 0)"
    by simp
  show ?thesis
    using visit_ArraySlice_defaults [OF a j j]
    by (simp add: spec_normalize_def n)
qed

section \<open>Map lookup with a default\<close>

text \<open>The MapContains rule tells a key that is present with a null value from an absent key.\<close>

lemma visit_MapContains_eval:
  assumes "eval env arg = Some (VMap m)" and "eval env key = Some k"
  shows "eval env (visit_MapContains arg key) = Some (VBool (map_of m k \<noteq> None))"
  using assms
  by (simp add: visit_MapContains_def apply_func_def element_at_def split: option.splits)

text \<open>
  C6, as the code has it. The MapGet rule yields the default when the key is absent
  from the map and also when the key is present with a null value; it yields the
  stored value when the key is present with a value that is not null.
\<close>

theorem visit_MapGet_eval:
  assumes "eval env arg = Some (VMap m)"
    and "eval env key = Some k"
    and "eval env dflt = Some d"
  shows "eval env (visit_MapGet arg key dflt) =
           Some (case map_of m k of None \<Rightarrow> d | Some v \<Rightarrow> if v = VNull then d else v)"
  using assms
  by (simp add: visit_MapGet_def apply_func_def element_at_def list_extract_def
      split: option.splits)

theorem visit_MapGet_eval_witness:
  "eval no_columns
     (visit_MapGet (Func ''map'' [Array [IntLit 1, IntLit 2], Array [IntLit 5, Null]])
        (IntLit 1) (IntLit 0)) = Some (VInt 5) \<and>
   eval no_columns
     (visit_MapGet (Func ''map'' [Array [IntLit 1, IntLit 2], Array [IntLit 5, Null]])
        (IntLit 3) (IntLit 0)) = Some (VInt 0)"
proof -
  have a: "eval no_columns (Func ''map'' [Array [IntLit 1, IntLit 2], Array [IntLit 5, Null]]) =
             Some (VMap [(VInt 1, VInt 5), (VInt 2, VNull)])"
    by (simp add: apply_func_def)
  have k1: "eval no_columns (IntLit 1) = Some (VInt 1)"
    by simp
  have k3: "eval no_columns (IntLit 3) = Some (VInt 3)"
    by simp
  have d: "eval no_columns (IntLit 0) = Some (VInt 0)"
    by simp
  show ?thesis
    using visit_MapGet_eval [OF a k1 d] visit_MapGet_eval [OF a k3 d]
    by simp
qed

text \<open>
  C6, as the specification words it, fails on the map that sends 1 to null, the key 1
  and the default 0: the key is present, the stored value is null, and the rule yields
  the default 0.
\<close>

theorem visit_MapGet_spec_counterexample:
  "eval no_columns (visit_MapGet (Func ''map'' [Array [IntLit 1], Array [Null]])
      (IntLit 1) (IntLit 0)) = Some (VInt 0) \<and>
   spec_map_get [(VInt 1, VNull)] (VInt 1) (VInt 0) = VNull \<and>
   eval no_columns (visit_MapGet (Func ''map'' [Array [IntLit 1], Array [Null]])
      (IntLit 1) (IntLit 0)) \<noteq> Some (spec_map_get [(VInt 1, VNull)] (VInt 1) (VInt 0))"
  by (simp add: visit_MapGet_def apply_func_def element_at_def list_extract_def
      spec_map_get_def)

section \<open>Intervals and timestamps\<close>

text \<open>
  C2, on the code. With a unit whose short name is \<open>ns\<close>, interval-from-integer and the
  rendering of an interval literal raise the unsupported-operation error of nanosecond
  resolutions, and the cast to an interval type raises \<open>KeyError\<close> instead: its
  dictionary of suffixes has no entry for \<open>ns\<close> and the rule does not test for it.
\<close>

theorem nanosecond_interval_paths:
  "visit_IntervalFromInteger arg (u\<lparr>short := ''ns''\<rparr>) =
     Inl (UnsupportedOperationError NanosecondInterval) \<and>
   visit_NonNullLiteral v (DataType (Interval (u\<lparr>short := ''ns''\<rparr>)) n) =
     Inl (UnsupportedOperationError NanosecondInterval) \<and>
   visit_Cast arg_dtype arg (DataType (Interval (u\<lparr>short := ''ns''\<rparr>)) n) =
     Inl (KeyError ''ns'')"
  by (simp add: visit_IntervalFromInteger_def visit_NonNullLiteral_def visit_Cast_def
      INTERVAL_SUFFIXES_def)

text \<open>
  C10. The TimestampFromUNIX rule translates the unit \<open>s\<close> to the epoch-seconds
  constructor and the unit \<open>ms\<close> to the epoch-milliseconds constructor, and raises the
  unsupported-operation error for every other unit.
\<close>

theorem visit_TimestampFromUNIX_units:
  "(short unit = ''s'' \<longrightarrow> visit_TimestampFromUNIX arg unit = Inr (UnixToTime arg)) \<and>
   (short unit = ''ms'' \<longrightarrow>
      visit_TimestampFromUNIX arg unit = Inr (Func ''epoch_ms'' [arg])) \<and>
   (short unit \<noteq> ''s'' \<and> short unit \<noteq> ''ms'' \<longrightarrow>
      visit_TimestampFromUNIX arg unit =
        Inl (UnsupportedOperationError (UnitNotSupported (short unit))))"
  by (simp add: visit_TimestampFromUNIX_def Let_def)

theorem visit_TimestampFromUNIX_units_witness:
  "visit_TimestampFromUNIX (Column ''a'')
     \<lparr>short = ''s'', singular = ''second'', plural = ''seconds''\<rparr> =
     Inr (UnixToTime (Column ''a'')) \<and>
   visit_TimestampFromUNIX (Column ''a'')
     \<lparr>short = ''ms'', singular = ''millisecond'', plural = ''milliseconds''\<rparr> =
     Inr (Func ''epoch_ms'' [Column ''a'']) \<and>
   visit_TimestampFromUNIX (Column ''a'')
     \<lparr>short = ''us'', singular = ''microsecond'', plural = ''microseconds''\<rparr> =
     Inl (UnsupportedOperationError (UnitNotSupported ''us'')) \<and>
   visit_TimestampFromUNIX (Column ''a'')
     \<lparr>short = ''ns'', singular = ''nanosecond'', plural = ''nanoseconds''\<rparr> =
     Inl (UnsupportedOperationError (UnitNotSupported ''ns''))"
  using
    visit_TimestampFromUNIX_units
      [of "\<lparr>short = ''s'', singular = ''second'', plural = ''seconds''\<rparr>" "Column ''a''"]
    visit_TimestampFromUNIX_units
      [of "\<lparr>short = ''ms'', singular = ''millisecond'', plural = ''milliseconds''\<rparr>"
        "Column ''a''"]
    visit_TimestampFromUNIX_units
      [of "\<lparr>short = ''us'', singular = ''microsecond'', plural = ''microseconds''\<rparr>"
        "Column ''a''"]
    visit_TimestampFromUNIX_units
      [of "\<lparr>short = ''ns'', singular = ''nanosecond'', plural = ''nanoseconds''\<rparr>"
        "Column ''a''"]
  by simp

section \<open>Correlation\<close>

text \<open>
  C7. The mode \<open>sample\<close> always raises the unsupported-operation error. The mode \<open>pop\<close>
  always returns the aggregate call \<open>corr\<close>, in which an operand of boolean type is cast
  to the 32-bit integer type of the same nullability and any other operand is passed
  as it is.
\<close>

theorem visit_Correlation_modes:
  "visit_Correlation lt rt l r ''sample'' w =
     Inl (UnsupportedOperationError OnlyPopCorrelation) \<and>
   visit_Correlation (DataType Boolean nl) (DataType Boolean nr) l r ''pop'' w =
     Inr (aggregate ''corr'' [Cast l (DataType (SignedInteger 32) nl),
                              Cast r (DataType (SignedInteger 32) nr)] w) \<and>
   (\<not> is_boolean rt \<longrightarrow>
      visit_Correlation (DataType Boolean nl) rt l r ''pop'' w =
        Inr (aggregate ''corr'' [Cast l (DataType (SignedInteger 32) nl), r] w)) \<and>
   (\<not> is_boolean lt \<longrightarrow>
      visit_Correlation lt (DataType Boolean nr) l r ''pop'' w =
        Inr (aggregate ''corr'' [l, Cast r (DataType (SignedInteger 32) nr)] w)) \<and>
   (\<not> is_boolean lt \<and> \<not> is_boolean rt \<longrightarrow>
      visit_Correlation lt rt l r ''pop'' w = Inr (aggregate ''corr'' [l, r] w))"
  by (simp add: visit_Correlation_def Int32_def)

theorem visit_Correlation_modes_witness:
  "visit_Correlation (DataType Boolean True) (DataType (Floating 64) False)
     (Column ''a'') (Column ''b'') ''pop'' None =
     Inr (Func ''corr'' [Cast (Column ''a'') (DataType (SignedInteger 32) True), Column ''b'']) \<and>
   visit_Correlation (DataType (Floating 64) True) (DataType Boolean False)
     (Column ''a'') (Column ''b'') ''pop'' (Some (Column ''p'')) =
     Inr (Filter
            (Func ''corr''
               [Column ''a'', Cast (Column ''b'') (DataType (SignedInteger 32) False)])
            (Where (Column ''p''))) \<and>
   visit_Correlation (DataType (Floating 64) True) (DataType (Floating 64) True)
     (Column ''a'') (Column ''b'') ''pop'' None = Inr (Func ''corr'' [Column ''a'', Column ''b''])"
  using
    visit_Correlation_modes [of "DataType (Floating 64) True" "DataType (Floating 64) False"
      "Column ''a''" "Column ''b''" None True False]
    visit_Correlation_modes [of "DataType (Floating 64) True" "DataType (Floating 64) True"
      "Column ''a''" "Column ''b''" "Some (Column ''p'')" True False]
    visit_Correlation_modes [of "DataType (Floating 64) True" "DataType (Floating 64) True"
      "Column ''a''" "Column ''b''" None True False]
  by (simp add: aggregate_def)

section \<open>Aggregates of the uniform-mapping table\<close>

lemma fmt_reduction_where:
  assumes "''where'' \<notin> fst ` set kw1" and "''where'' \<notin> fst ` set kw2"
  shows "fmt_reduction name (kw1 @ (''where'', w) # kw2) =
           Inr (aggregate name (map (\<lambda>kv. convert_opt (snd kv)) (kw1 @ kw2)) w)"
proof -
  have f1: "filter (\<lambda>kv. fst kv \<noteq> ''where'') kw1 = kw1"
    using assms(1) by (intro filter_True) force
  have f2: "filter (\<lambda>kv. fst kv \<noteq> ''where'') kw2 = kw2"
    using assms(2) by (intro filter_True) force
  have m: "map_of kw1 ''where'' = None"
    using assms(1) by (simp add: map_of_eq_None_iff)
  show ?thesis
    by (simp add: fmt_reduction_def f1 f2 m map_add_def)
qed

lemma simple_scalar:
  assumes "map_of SIMPLE_OPS opname = Some name" and "\<not> is_reduction opname"
  shows "simple_rule is_reduction opname = Some (fmt_scalar name)"
  using assms by (simp add: simple_rule_def)

text \<open>
  C8. For a node kind of the table that is a reduction, the registered rule, called
  with a predicate as its \<open>where\<close>, returns the aggregate call wrapped in a filter on
  that predicate, and called with \<open>None\<close> as its \<open>where\<close> returns the bare call: the
  name is the one of the table and the arguments are the other keyword arguments in
  their order, the same in both.
\<close>

theorem simple_reduction_where:
  assumes "map_of SIMPLE_OPS opname = Some name"
    and "is_reduction opname"
    and "''where'' \<notin> fst ` set kw1"
    and "''where'' \<notin> fst ` set kw2"
  shows "simple_rule is_reduction opname = Some (fmt_reduction name) \<and>
         fmt_reduction name (kw1 @ (''where'', Some p) # kw2) =
           Inr (Filter (Func name (map (\<lambda>kv. convert_opt (snd kv)) (kw1 @ kw2))) (Where p)) \<and>
         fmt_reduction name (kw1 @ (''where'', None) # kw2) =
           Inr (Func name (map (\<lambda>kv. convert_opt (snd kv)) (kw1 @ kw2)))"
  using assms(1,2)
  by (simp add: simple_rule_def fmt_reduction_where [OF assms(3,4)] aggregate_def)

theorem simple_reduction_where_witness:
  "simple_rule (\<lambda>k. k \<in> set [''BitAnd'', ''BitOr'', ''BitXor'', ''Mode'', ''GeoUnaryUnion''])
     ''BitAnd'' = Some (fmt_reduction ''bit_and'') \<and>
   fmt_reduction ''bit_and'' [(''arg'', Some (Column ''a'')), (''where'', Some (Column ''p''))] =
     Inr (Filter (Func ''bit_and'' [Column ''a'']) (Where (Column ''p''))) \<and>
   fmt_reduction ''bit_and'' [(''arg'', Some (Column ''a'')), (''where'', None)] =
     Inr (Func ''bit_and'' [Column ''a''])"
  using simple_reduction_where [of "''BitAnd''" "''bit_and''"
      "\<lambda>k. k \<in> set [''BitAnd'', ''BitOr'', ''BitXor'', ''Mode'', ''GeoUnaryUnion'']"
      "[(''arg'', Some (Column ''a''))]" "[]" "Column ''p''"]
  by (simp add: SIMPLE_OPS_def)

section \<open>Hashing\<close>

text \<open>
  C9. The HexDigest rule returns the call of \<open>md5\<close> or of \<open>sha256\<close> on its one operand
  for these two names, and raises \<open>NotImplementedError\<close>, "No available hashing
  function", for every other name.
\<close>

theorem visit_HexDigest_allow_list:
  "visit_HexDigest arg ''md5'' = Inr (Func ''md5'' [arg]) \<and>
   visit_HexDigest arg ''sha256'' = Inr (Func ''sha256'' [arg]) \<and>
   (how \<noteq> ''md5'' \<and> how \<noteq> ''sha256'' \<longrightarrow>
      visit_HexDigest arg how = Inl (NotImplementedError how))"
  by (simp add: visit_HexDigest_def)

theorem visit_HexDigest_allow_list_witness:
  "visit_HexDigest (Column ''a'') ''sha1'' = Inl (NotImplementedError ''sha1'')"
  using visit_HexDigest_allow_list [of "Column ''a''" "''sha1''"]
  by simp

end
